theory Spec2Isabelle
  imports Complex_Main
begin

section \<open>Values exchanged with the service\<close>

text \<open>
  The handlers of \<^verbatim>\<open>app.js\<close> read a body parsed by \<^verbatim>\<open>express.json()\<close> and answer with
  \<^verbatim>\<open>res.json(...)\<close>. A number of a parsed body is a double: a finite value, the negative
  zero (\<^verbatim>\<open>JSON.parse("-0")\<close>) or an infinity (\<^verbatim>\<open>JSON.parse("1e999")\<close>); a parse never
  yields NaN. An object is the list of its properties, each key once.
\<close>

datatype jsnumber = Finite rat | NegZero | PosInfinity | NegInfinity

datatype json =
    JNull
  | JBool bool
  | JNum jsnumber
  | JStr string
  | JArr "json list"
  | JObj "(string \<times> json) list"

text \<open>
  The value of a JavaScript expression that may be \<^verbatim>\<open>undefined\<close> is a \<open>json option\<close>,
  \<open>None\<close> being \<^verbatim>\<open>undefined\<close>. \<open>truthy\<close> is the language's ToBoolean: \<^verbatim>\<open>undefined\<close>,
  \<^verbatim>\<open>null\<close>, \<^verbatim>\<open>false\<close>, both zeros and the empty string are falsy, every array and object
  is truthy.
\<close>

fun truthy :: "json option \<Rightarrow> bool" where
  "truthy None = False"
| "truthy (Some JNull) = False"
| "truthy (Some (JBool b)) = b"
| "truthy (Some (JNum (Finite q))) = (q \<noteq> 0)"
| "truthy (Some (JNum NegZero)) = False"
| "truthy (Some (JNum PosInfinity)) = True"
| "truthy (Some (JNum NegInfinity)) = True"
| "truthy (Some (JStr s)) = (s \<noteq> [])"
| "truthy (Some (JArr xs)) = True"
| "truthy (Some (JObj kvs)) = True"

datatype error =
    TypeError string
  | CastError string
  | DuplicateKey
  | StoreError string

text \<open>\<^verbatim>\<open>err.message\<close>. Only the text of a \<open>StoreError\<close> is given by the store; the other
  three texts follow the wording of the engine and of the driver.\<close>

fun message :: "error \<Rightarrow> string" where
  "message (TypeError prop) =
     ''Cannot destructure property '' @ [CHR 0x27] @ prop @ [CHR 0x27]
       @ '' of '' @ [CHR 0x27] @ ''req.body'' @ [CHR 0x27] @ '' as it is null.''"
| "message (CastError v) = ''Cast to ObjectId failed for value '' @ v"
| "message DuplicateKey = ''E11000 duplicate key error''"
| "message (StoreError msg) = msg"

text \<open>
  Reading a property of the body, as the destructuring
  \<^verbatim>\<open>const { name, subscribedChannel } = req.body\<close> does: an object gives the property or
  \<^verbatim>\<open>undefined\<close>, an array and a primitive have neither property, and \<^verbatim>\<open>null\<close> cannot be
  destructured (a TypeError, thrown inside the handler's \<^verbatim>\<open>try\<close>).
\<close>

fun get_prop :: "json \<Rightarrow> string \<Rightarrow> error + json option" where
  "get_prop JNull k = Inl (TypeError k)"
| "get_prop (JObj kvs) k = Inr (map_of kvs k)"
| "get_prop _ k = Inr None"

record response =
  status :: nat
  body :: json

text \<open>\<^verbatim>\<open>res.status(c).json({ message: m })\<close>.\<close>

definition message_response :: "nat \<Rightarrow> string \<Rightarrow> response" where
  "message_response c m = \<lparr>status = c, body = JObj [(''message'', JStr m)]\<rparr>"

text \<open>\<^verbatim>\<open>res.json(v)\<close> leaves the status at its default, 200.\<close>

definition json_response :: "json \<Rightarrow> response" where
  "json_response v = \<lparr>status = 200, body = v\<rparr>"

section \<open>The subscribers collection\<close>

text \<open>
  A document is the list of its fields. The store is the collection, in insertion
  order, together with the list of the calls made on the persistence client so far;
  the latter is bookkeeping that lets a theorem say which calls a handler made.
\<close>

type_synonym document = "(string \<times> json) list"

datatype call =
    Find
  | FindSelect string
  | FindById string
  | Save document
  | DeleteMany
  | InsertMany "document list"
  | Disconnect

record store =
  subscribers :: "document list"
  calls :: "call list"

definition logged :: "call \<Rightarrow> store \<Rightarrow> store" where
  "logged c db = db\<lparr>calls := calls db @ [c]\<rparr>"

text \<open>The calls that only read the collection.\<close>

fun is_read :: "call \<Rightarrow> bool" where
  "is_read Find = True"
| "is_read (FindSelect sel) = True"
| "is_read (FindById ident) = True"
| "is_read (Save d) = False"
| "is_read DeleteMany = False"
| "is_read (InsertMany ds) = False"
| "is_read Disconnect = False"

text \<open>
  Whether a call on the store goes through is decided outside the program (the network,
  the server): every operation takes that outcome as an argument, \<open>None\<close> when the call
  goes through and \<open>Some msg\<close> when it is rejected with an error of that text.
\<close>

type_synonym fault = "string option"

definition doc_id :: "document \<Rightarrow> json option" where
  "doc_id d = map_of d ''_id''"

text \<open>
  Modelled from the spec: the identifiers of the store (the Subscriber model of
  \<^verbatim>\<open>models/subscribers.js\<close> and the driver's ObjectId are not part of the sources at
  hand). A well-formed identifier is written as 24 hexadecimal digits; the store keeps
  it in lower case, and a lookup casts its argument first.
\<close>

definition hex_digits :: string where
  "hex_digits = ''0123456789abcdefABCDEF''"

definition to_lower :: "char \<Rightarrow> char" where
  "to_lower c =
     (case map_of (zip ''ABCDEFGHIJKLMNOPQRSTUVWXYZ'' ''abcdefghijklmnopqrstuvwxyz'') c of
        Some l \<Rightarrow> l
      | None \<Rightarrow> c)"

definition isValidObjectId :: "string \<Rightarrow> bool" where
  "isValidObjectId s = (length s = 24 \<and> list_all (\<lambda>c. c \<in> set hex_digits) s)"

definition castObjectId :: "string \<Rightarrow> error + string" where
  "castObjectId s = (if isValidObjectId s then Inr (map to_lower s) else Inl (CastError s))"

text \<open>An identifier as the driver generates it: well-formed, its letters in lower case.\<close>

definition generated_id :: "string \<Rightarrow> bool" where
  "generated_id s = (isValidObjectId s \<and> map to_lower s = s)"

text \<open>
  Modelled from the spec: \<^verbatim>\<open>new Subscriber({ name, subscribedChannel })\<close>. The schema is
  not at hand; by the spec a Subscriber has an identifier assigned on creation and the
  two fields, and nothing is validated beyond the presence check of the handler. The
  identifier is the one the driver draws for the new document; a property that is
  \<^verbatim>\<open>undefined\<close> sets no field.
\<close>

definition set_field :: "string \<Rightarrow> json option \<Rightarrow> document" where
  "set_field k v = (case v of None \<Rightarrow> [] | Some x \<Rightarrow> [(k, x)])"

definition new_Subscriber :: "string \<Rightarrow> json option \<Rightarrow> json option \<Rightarrow> document" where
  "new_Subscriber oid name subscribedChannel =
     (''_id'', JStr oid) # set_field ''name'' name @ set_field ''subscribedChannel'' subscribedChannel"

subsection \<open>Operations of the persistence client\<close>

text \<open>
  Modelled from the spec: the operations of the Subscriber model (the file
  \<^verbatim>\<open>models/subscribers.js\<close> that declares it is not among the sources). They are the
  operations of the persistence client that the handlers and the seeding script call,
  named as the code names them (\<open>find_all\<close> for \<^verbatim>\<open>find\<close>, \<open>find_select\<close> for
  \<^verbatim>\<open>find().select(...)\<close>); each adds itself to the list of calls, whether it goes
  through or not.
\<close>

text \<open>\<^verbatim>\<open>Subscriber.find()\<close>: every document, in the store's order.\<close>

definition find_all :: "fault \<Rightarrow> store \<Rightarrow> (error + document list) \<times> store" where
  "find_all f db =
     (case f of
        Some msg \<Rightarrow> (Inl (StoreError msg), logged Find db)
      | None \<Rightarrow> (Inr (subscribers db), logged Find db))"

text \<open>
  \<^verbatim>\<open>.select("name subscribedChannel -_id")\<close>: the argument is split at spaces, a leading
  minus excludes a field, any other word includes one. With an included field the result
  keeps the included fields and the identifier unless that is excluded, and excluding
  another field is refused by the store; with no included field the result drops the
  excluded ones.
\<close>

fun split_on :: "char \<Rightarrow> string \<Rightarrow> string list" where
  "split_on sep [] = [[]]"
| "split_on sep (c # cs) =
     (if c = sep then [] # split_on sep cs
      else (case split_on sep cs of
              [] \<Rightarrow> [[c]]
            | w # ws \<Rightarrow> (c # w) # ws))"

datatype projection = Include string | Exclude string

fun parse_field :: "string \<Rightarrow> projection" where
  "parse_field (c # cs) = (if c = CHR ''-'' then Exclude cs else Include (c # cs))"
| "parse_field [] = Include []"

definition parse_select :: "string \<Rightarrow> projection list" where
  "parse_select s = map parse_field (filter (\<lambda>w. w \<noteq> []) (split_on CHR '' '' s))"

fun included :: "projection list \<Rightarrow> string list" where
  "included [] = []"
| "included (Include f # ps) = f # included ps"
| "included (Exclude f # ps) = included ps"

fun excluded :: "projection list \<Rightarrow> string list" where
  "excluded [] = []"
| "excluded (Include f # ps) = excluded ps"
| "excluded (Exclude f # ps) = f # excluded ps"

definition project :: "projection list \<Rightarrow> document \<Rightarrow> document" where
  "project ps d =
     (if included ps = [] then filter (\<lambda>(k, v). k \<notin> set (excluded ps)) d
      else filter (\<lambda>(k, v). k \<in> set (included ps)
                     \<or> (k = ''_id'' \<and> ''_id'' \<notin> set (excluded ps))) d)"

definition projection_refused :: "projection list \<Rightarrow> bool" where
  "projection_refused ps =
     (included ps \<noteq> [] \<and> list_ex (\<lambda>f. f \<noteq> ''_id'') (excluded ps))"

definition find_select :: "string \<Rightarrow> fault \<Rightarrow> store \<Rightarrow> (error + document list) \<times> store" where
  "find_select sel f db =
     (case f of
        Some msg \<Rightarrow> (Inl (StoreError msg), logged (FindSelect sel) db)
      | None \<Rightarrow>
          (if projection_refused (parse_select sel)
           then (Inl (StoreError ''Cannot do exclusion in inclusion projection''),
                 logged (FindSelect sel) db)
           else (Inr (map (project (parse_select sel)) (subscribers db)),
                 logged (FindSelect sel) db)))"

text \<open>
  \<^verbatim>\<open>Subscriber.findById(id)\<close>: the argument is cast to an identifier first, and a string
  that is none rejects the query with a CastError; otherwise the result is the document
  with that identifier, or \<^verbatim>\<open>null\<close> (\<open>None\<close>) when there is none.
\<close>

definition findById :: "string \<Rightarrow> fault \<Rightarrow> store \<Rightarrow> (error + document option) \<times> store" where
  "findById ident f db =
     (case castObjectId ident of
        Inl err \<Rightarrow> (Inl err, logged (FindById ident) db)
      | Inr oid \<Rightarrow>
          (case f of
             Some msg \<Rightarrow> (Inl (StoreError msg), logged (FindById ident) db)
           | None \<Rightarrow>
               (Inr (find (\<lambda>d. doc_id d = Some (JStr oid)) (subscribers db)),
                logged (FindById ident) db)))"

text \<open>
  \<^verbatim>\<open>doc.save()\<close> of a new document: one insert. The store refuses a second document with
  an identifier it already holds.
\<close>

definition save :: "document \<Rightarrow> fault \<Rightarrow> store \<Rightarrow> (error + document) \<times> store" where
  "save d f db =
     (case f of
        Some msg \<Rightarrow> (Inl (StoreError msg), logged (Save d) db)
      | None \<Rightarrow>
          (if doc_id d \<in> set (map doc_id (subscribers db))
           then (Inl DuplicateKey, logged (Save d) db)
           else (Inr d, logged (Save d) (db\<lparr>subscribers := subscribers db @ [d]\<rparr>))))"

text \<open>\<^verbatim>\<open>subscriberModel.deleteMany({})\<close>: the empty filter matches every document.\<close>

definition deleteMany :: "fault \<Rightarrow> store \<Rightarrow> (error + unit) \<times> store" where
  "deleteMany f db =
     (case f of
        Some msg \<Rightarrow> (Inl (StoreError msg), logged DeleteMany db)
      | None \<Rightarrow> (Inr (), logged DeleteMany (db\<lparr>subscribers := []\<rparr>)))"

text \<open>
  Modelled from the spec: \<^verbatim>\<open>subscriberModel.insertMany(data)\<close> (the model and the driver
  are not at hand). The documents are written one after the other, in order and outside
  any transaction; the first one the store refuses ends the call, and the documents
  written before it stay.
\<close>

fun insert_ordered :: "document list \<Rightarrow> document list \<Rightarrow> error option \<times> document list" where
  "insert_ordered [] coll = (None, coll)"
| "insert_ordered (d # ds) coll =
     (if doc_id d \<in> set (map doc_id coll) then (Some DuplicateKey, coll)
      else insert_ordered ds (coll @ [d]))"

text \<open>
  The outcome of the call given from outside is \<open>None\<close> when the connection holds, and
  \<open>Some (k, msg)\<close> when it breaks with the error \<open>msg\<close> once \<open>k\<close> documents were sent.
\<close>

definition insertMany ::
  "document list \<Rightarrow> (nat \<times> string) option \<Rightarrow> store \<Rightarrow> (error + document list) \<times> store" where
  "insertMany ds f db =
     (case f of
        None \<Rightarrow>
          (case insert_ordered ds (subscribers db) of
             (None, coll) \<Rightarrow> (Inr ds, logged (InsertMany ds) (db\<lparr>subscribers := coll\<rparr>))
           | (Some err, coll) \<Rightarrow> (Inl err, logged (InsertMany ds) (db\<lparr>subscribers := coll\<rparr>)))
      | Some (k, msg) \<Rightarrow>
          (case insert_ordered (take k ds) (subscribers db) of
             (None, coll) \<Rightarrow>
               (Inl (StoreError msg), logged (InsertMany ds) (db\<lparr>subscribers := coll\<rparr>))
           | (Some err, coll) \<Rightarrow> (Inl err, logged (InsertMany ds) (db\<lparr>subscribers := coll\<rparr>))))"

text \<open>\<^verbatim>\<open>mongoose.disconnect()\<close>.\<close>

definition disconnect :: "fault \<Rightarrow> store \<Rightarrow> (error + unit) \<times> store" where
  "disconnect f db =
     (case f of
        Some msg \<Rightarrow> (Inl (StoreError msg), logged Disconnect db)
      | None \<Rightarrow> (Inr (), logged Disconnect db))"

section \<open>The request handlers of app.js\<close>

text \<open>
  Each handler takes what the request carries, the outcome of its store call and the
  store, and gives the response and the store after the request.
\<close>

definition get_subscribers :: "fault \<Rightarrow> store \<Rightarrow> response \<times> store" where
  "get_subscribers f db =
     (case find_all f db of
        (Inr subs, db') \<Rightarrow> (json_response (JArr (map JObj subs)), db')
      | (Inl err, db') \<Rightarrow> (message_response 500 (message err), db'))"

definition required_message :: string where
  "required_message = ''Name and subscribedChannel are required.''"

definition post_subscribers :: "json \<Rightarrow> string \<Rightarrow> fault \<Rightarrow> store \<Rightarrow> response \<times> store" where
  "post_subscribers reqbody oid f db =
     (case get_prop reqbody ''name'' of
        Inl err \<Rightarrow> (message_response 500 (message err), db)
      | Inr name \<Rightarrow>
          (case get_prop reqbody ''subscribedChannel'' of
             Inl err \<Rightarrow> (message_response 500 (message err), db)
           | Inr subscribedChannel \<Rightarrow>
               (if \<not> truthy name \<or> \<not> truthy subscribedChannel
                then (message_response 400 required_message, db)
                else (case save (new_Subscriber oid name subscribedChannel) f db of
                        (Inr newSubscriber, db') \<Rightarrow>
                          (\<lparr>status = 201, body = JObj newSubscriber\<rparr>, db')
                      | (Inl err, db') \<Rightarrow> (message_response 500 (message err), db')))))"

definition get_subscribers_name :: "fault \<Rightarrow> store \<Rightarrow> response \<times> store" where
  "get_subscribers_name f db =
     (case find_select ''name subscribedChannel -_id'' f db of
        (Inr subs, db') \<Rightarrow> (json_response (JArr (map JObj subs)), db')
      | (Inl err, db') \<Rightarrow> (message_response 500 (message err), db'))"

definition not_found :: response where
  "not_found = message_response 400 ''Subscriber not found''"

definition get_subscriber_by_id :: "string \<Rightarrow> fault \<Rightarrow> store \<Rightarrow> response \<times> store" where
  "get_subscriber_by_id ident f db =
     (case findById ident f db of
        (Inr None, db') \<Rightarrow> (not_found, db')
      | (Inr (Some subscriber), db') \<Rightarrow> (json_response (JObj subscriber), db')
      | (Inl err, db') \<Rightarrow> (not_found, db'))"

section \<open>Routing\<close>

text \<open>
  The application is a stack of layers, tried in the order of their registration in
  \<^verbatim>\<open>app.js\<close>: \<^verbatim>\<open>express.json()\<close>, \<^verbatim>\<open>express.static(__dirname)\<close>, the five routes and the
  documentation mounted at \<^verbatim>\<open>/api-docs\<close>. The two middlewares answer some requests
  themselves and pass the others on; every handler of the file answers the request
  without passing it on, so the first route that matches decides. A path is the
  request's path without its query string and without percent-escapes; the methods are
  those a client may send to the routes of the file (HEAD and OPTIONS are left out).
\<close>

datatype http_method = GET | POST | PUT | PATCH | DELETE

text \<open>
  What a request carries as its body, as \<^verbatim>\<open>express.json()\<close> sees it: no body, or one that
  is not declared as JSON (\<open>NoJsonBody\<close>); a body declared as JSON that is not JSON text
  (\<open>Malformed\<close>); or JSON text, given by its value (\<open>Parsed\<close>). The limits on size and
  encoding of the parser are left out.
\<close>

datatype payload = NoJsonBody | Malformed | Parsed json

record request =
  req_method :: http_method
  req_path :: string
  req_payload :: payload

text \<open>
  \<^verbatim>\<open>express.json()\<close>, whatever the method: it leaves the empty object in \<^verbatim>\<open>req.body\<close> when
  there is nothing to parse, the value when the text is an object or an array, and it
  refuses every other text (the parser is strict by default) and every malformed one;
  a refused body is answered with status 400 and reaches no route. \<open>None\<close> is the refusal.
\<close>

fun express_json :: "payload \<Rightarrow> json option" where
  "express_json NoJsonBody = Some (JObj [])"
| "express_json Malformed = None"
| "express_json (Parsed (JObj kvs)) = Some (JObj kvs)"
| "express_json (Parsed (JArr xs)) = Some (JArr xs)"
| "express_json (Parsed v) = None"

text \<open>
  The served directory is given by the entries it holds, each under its path from the
  root of the site; a path with an entry beneath it is a directory, listed or not.
\<close>

datatype node = File | Directory

type_synonym directory_tree = "(string \<times> node) list"

definition beneath :: "string \<Rightarrow> string \<Rightarrow> bool" where
  "beneath p q = (take (Suc (length p)) q = p @ ''/'')"

definition node_at :: "directory_tree \<Rightarrow> string \<Rightarrow> node option" where
  "node_at tree p =
     (case map_of tree p of
        Some n \<Rightarrow> Some n
      | None \<Rightarrow> (if list_ex (\<lambda>(q, n). beneath p q) tree then Some Directory else None))"

text \<open>
  \<^verbatim>\<open>express.static(__dirname)\<close> with its defaults. It passes on every request that is not
  a GET, and every path with a segment of two or more characters that starts with a dot.
  A path that ends with a slash is answered with the \<^verbatim>\<open>index.html\<close> of that directory
  when this is a file. Any other path is answered with the file of that path, or, when
  the path is a directory, with a redirection (status 301) to the path followed by a
  slash. Everything else is passed on.
\<close>

fun dot_segment :: "string \<Rightarrow> bool" where
  "dot_segment (c # d # cs) = (c = CHR ''.'')"
| "dot_segment _ = False"

definition has_dot_segment :: "string \<Rightarrow> bool" where
  "has_dot_segment p = list_ex dot_segment (split_on CHR ''/'' p)"

datatype static_outcome = Pass | Serve string | MovedTo string

definition express_static :: "directory_tree \<Rightarrow> http_method \<Rightarrow> string \<Rightarrow> static_outcome" where
  "express_static tree m p =
     (if m \<noteq> GET then Pass
      else if has_dot_segment p then Pass
      else if p \<noteq> [] \<and> last p = CHR ''/''
      then (if node_at tree (p @ ''index.html'') = Some File then Serve (p @ ''index.html'')
            else Pass)
      else (case node_at tree p of
              Some File \<Rightarrow> Serve p
            | Some Directory \<Rightarrow> MovedTo (p @ ''/'')
            | None \<Rightarrow> Pass))"

datatype endpoint = Homepage | ListAll | Create | ListNames | GetById | ApiDocs

datatype layer =
    JsonParser
  | Static
  | Route http_method string endpoint
  | Use string endpoint

definition app_stack :: "layer list" where
  "app_stack =
     [JsonParser,
      Static,
      Route GET ''/'' Homepage,
      Route GET ''/subscribers'' ListAll,
      Route POST ''/subscribers'' Create,
      Route GET ''/subscribers/name'' ListNames,
      Route GET ''/subscribers/:id'' GetById,
      Use ''/api-docs'' ApiDocs]"

text \<open>
  A route's pattern matches a path segment by segment: a segment \<^verbatim>\<open>:x\<close> of the pattern
  takes any non-empty segment of the path and binds it to \<^verbatim>\<open>x\<close>, any other segment must
  be the path's segment up to the case of letters. One trailing slash of the path is
  ignored.
\<close>

definition strip_slash :: "string \<Rightarrow> string" where
  "strip_slash p = (if p \<noteq> [] \<and> last p = CHR ''/'' then butlast p else p)"

definition segments :: "string \<Rightarrow> string list" where
  "segments p = split_on CHR ''/'' (strip_slash p)"

fun match_segments :: "string list \<Rightarrow> string list \<Rightarrow> (string \<times> string) list option" where
  "match_segments [] [] = Some []"
| "match_segments (p # ps) (s # ss) =
     (case p of
        c # nm \<Rightarrow>
          (if c = CHR '':''
           then (if s = [] then None
                 else map_option ((#) (nm, s)) (match_segments ps ss))
           else (if map to_lower p = map to_lower s then match_segments ps ss else None))
      | [] \<Rightarrow> (if s = [] then match_segments ps ss else None))"
| "match_segments _ _ = None"

definition match_route :: "string \<Rightarrow> string \<Rightarrow> (string \<times> string) list option" where
  "match_route pattern p = match_segments (segments pattern) (segments p)"

text \<open>\<^verbatim>\<open>app.use(prefix, ...)\<close> matches every path that starts with the segments of the prefix.\<close>

definition match_prefix :: "string \<Rightarrow> string \<Rightarrow> bool" where
  "match_prefix pattern p =
     (match_segments (segments pattern) (take (length (segments pattern)) (segments p)) \<noteq> None)"

text \<open>
  What becomes of a request in the stack: the parser refuses it, the static layer
  serves a file or redirects, or a handler gets it, with the parameters of its route
  and with \<^verbatim>\<open>req.body\<close> as the layers before it left it (\<open>None\<close> is \<^verbatim>\<open>undefined\<close>, the
  value before any parser ran). No layer answering is the framework's 404.
\<close>

datatype outcome =
    ParserError
  | ServedFile string
  | Redirected string
  | Handled endpoint "(string \<times> string) list" "json option"

fun dispatch ::
  "directory_tree \<Rightarrow> layer list \<Rightarrow> request \<Rightarrow> json option \<Rightarrow> outcome option" where
  "dispatch tree [] req b = None"
| "dispatch tree (JsonParser # ls) req b =
     (case express_json (req_payload req) of
        None \<Rightarrow> Some ParserError
      | Some v \<Rightarrow> dispatch tree ls req (Some v))"
| "dispatch tree (Static # ls) req b =
     (case express_static tree (req_method req) (req_path req) of
        Pass \<Rightarrow> dispatch tree ls req b
      | Serve file \<Rightarrow> Some (ServedFile file)
      | MovedTo location \<Rightarrow> Some (Redirected location))"
| "dispatch tree (Route rm pattern e # ls) req b =
     (if rm = req_method req
      then (case match_route pattern (req_path req) of
              Some params \<Rightarrow> Some (Handled e params b)
            | None \<Rightarrow> dispatch tree ls req b)
      else dispatch tree ls req b)"
| "dispatch tree (Use pattern e # ls) req b =
     (if match_prefix pattern (req_path req) then Some (Handled e [] b)
      else dispatch tree ls req b)"

datatype result =
    Responded response
  | BadRequest
  | SentFile string
  | MovedPermanently string
  | SwaggerUi
  | NoRoute

text \<open>The text of the TypeError of a destructuring of \<^verbatim>\<open>undefined\<close>.\<close>

definition undefined_body_message :: string where
  "undefined_body_message =
     ''Cannot destructure property '' @ [CHR 0x27] @ ''name'' @ [CHR 0x27]
       @ '' of '' @ [CHR 0x27] @ ''req.body'' @ [CHR 0x27] @ '' as it is undefined.''"

text \<open>
  The handler of an endpoint. \<open>oid\<close> is the identifier the driver would draw for a new
  document and \<open>f\<close> the outcome of the store call, should the handler make one. The
  route of \<open>GetById\<close> binds \<^verbatim>\<open>id\<close>, and the parser has set the body before \<open>Create\<close> runs.
\<close>

definition run_handler ::
  "endpoint \<Rightarrow> (string \<times> string) list \<Rightarrow> json option \<Rightarrow> string \<Rightarrow> fault \<Rightarrow> store
     \<Rightarrow> result \<times> store" where
  "run_handler e params b oid f db =
     (case e of
        Homepage \<Rightarrow> (SentFile ''/index.html'', db)
      | ApiDocs \<Rightarrow> (SwaggerUi, db)
      | ListAll \<Rightarrow> (case get_subscribers f db of (r, db') \<Rightarrow> (Responded r, db'))
      | Create \<Rightarrow>
          (case b of
             Some v \<Rightarrow> (case post_subscribers v oid f db of (r, db') \<Rightarrow> (Responded r, db'))
           | None \<Rightarrow> (Responded (message_response 500 undefined_body_message), db))
      | ListNames \<Rightarrow> (case get_subscribers_name f db of (r, db') \<Rightarrow> (Responded r, db'))
      | GetById \<Rightarrow>
          (case map_of params ''id'' of
             Some ident \<Rightarrow>
               (case get_subscriber_by_id ident f db of (r, db') \<Rightarrow> (Responded r, db'))
           | None \<Rightarrow> (NoRoute, db)))"

text \<open>One request through the application; \<^verbatim>\<open>req.body\<close> is \<^verbatim>\<open>undefined\<close> at the start.\<close>

definition app ::
  "directory_tree \<Rightarrow> string \<Rightarrow> fault \<Rightarrow> request \<Rightarrow> store \<Rightarrow> result \<times> store" where
  "app tree oid f req db =
     (case dispatch tree app_stack req None of
        None \<Rightarrow> (NoRoute, db)
      | Some ParserError \<Rightarrow> (BadRequest, db)
      | Some (ServedFile file) \<Rightarrow> (SentFile file, db)
      | Some (Redirected location) \<Rightarrow> (MovedPermanently location, db)
      | Some (Handled e params b) \<Rightarrow> run_handler e params b oid f db)"

section \<open>The seeding script createDatabase.js\<close>

text \<open>
  \<open>data\<close> is the content of \<^verbatim>\<open>data.js\<close>, a list of objects, and \<open>gen i\<close> the identifier
  drawn for the \<open>i\<close>-th of them. \<^verbatim>\<open>refreshAll\<close> awaits three calls; a call that rejects
  ends it there, with that error.
\<close>

definition seed_documents :: "(nat \<Rightarrow> string) \<Rightarrow> document list \<Rightarrow> document list" where
  "seed_documents gen data =
     map (\<lambda>(i, d). new_Subscriber (gen i) (map_of d ''name'') (map_of d ''subscribedChannel''))
       (enumerate 0 data)"

definition refreshAll ::
  "document list \<Rightarrow> (nat \<Rightarrow> string) \<Rightarrow> fault \<Rightarrow> (nat \<times> string) option \<Rightarrow> fault \<Rightarrow> store
     \<Rightarrow> (error + unit) \<times> store" where
  "refreshAll data gen f1 f2 f3 db =
     (case deleteMany f1 db of
        (Inl err, db1) \<Rightarrow> (Inl err, db1)
      | (Inr u, db1) \<Rightarrow>
          (case insertMany (seed_documents gen data) f2 db1 of
             (Inl err, db2) \<Rightarrow> (Inl err, db2)
           | (Inr ds, db2) \<Rightarrow> disconnect f3 db2))"

text \<open>
  The script calls \<^verbatim>\<open>refreshAll()\<close> and handles nothing: a rejection is an unhandled
  rejection of the process.
\<close>

datatype script_outcome = Completed | UnhandledRejection error

definition createDatabase ::
  "document list \<Rightarrow> (nat \<Rightarrow> string) \<Rightarrow> fault \<Rightarrow> (nat \<times> string) option \<Rightarrow> fault \<Rightarrow> store
     \<Rightarrow> script_outcome \<times> store" where
  "createDatabase data gen f1 f2 f3 db =
     (case refreshAll data gen f1 f2 f3 db of
        (Inl err, db') \<Rightarrow> (UnhandledRejection err, db')
      | (Inr u, db') \<Rightarrow> (Completed, db'))"

section \<open>Sample data\<close>

definition john :: document where
  "john = [(''_id'', JStr ''64b1f0c2a1b2c3d4e5f60718''), (''name'', JStr ''John''),
           (''subscribedChannel'', JStr ''Tech'')]"

definition sample_store :: store where
  "sample_store = \<lparr>subscribers = [john], calls = []\<rparr>"

definition asha :: document where
  "asha = [(''_id'', JStr ''64b1f0c2a1b2c3d4e5f60719''), (''name'', JStr ''Asha''),
           (''subscribedChannel'', JStr ''Music'')]"

definition seed_data :: "document list" where
  "seed_data = [[(''name'', JStr ''a''), (''subscribedChannel'', JStr ''c1'')],
                [(''name'', JStr ''b''), (''subscribedChannel'', JStr ''c2'')]]"

definition seed_gen :: "nat \<Rightarrow> string" where
  "seed_gen i = (if i = 0 then ''650000000000000000000000'' else ''650000000000000000000001'')"

section \<open>What each store call leaves behind\<close>

lemma find_all_store: "snd (find_all f db) = logged Find db"
  by (simp add: find_all_def split: option.split)

lemma find_select_store: "snd (find_select sel f db) = logged (FindSelect sel) db"
  by (simp add: find_select_def split: option.split)

lemma findById_store: "snd (findById ident f db) = logged (FindById ident) db"
  by (simp add: findById_def split: option.split sum.split)

lemma get_subscribers_store: "snd (get_subscribers f db) = logged Find db"
  using find_all_store [of f db]
  by (auto simp add: get_subscribers_def split: prod.split sum.split)

lemma get_subscribers_name_store:
  "snd (get_subscribers_name f db) = logged (FindSelect ''name subscribedChannel -_id'') db"
  using find_select_store [of "''name subscribedChannel -_id''" f db]
  by (auto simp add: get_subscribers_name_def split: prod.split sum.split)

lemma get_subscriber_by_id_store:
  "snd (get_subscriber_by_id ident f db) = logged (FindById ident) db"
  using findById_store [of ident f db]
  by (auto simp add: get_subscriber_by_id_def split: prod.split sum.split option.split)

section \<open>POST /subscribers: the presence check\<close>

lemma post_subscribers_falsy:
  assumes "\<not> truthy (map_of kvs ''name'') \<or> \<not> truthy (map_of kvs ''subscribedChannel'')"
  shows "post_subscribers (JObj kvs) oid f db = (message_response 400 required_message, db)"
  using assms by (auto simp add: post_subscribers_def)

text \<open>
  Claim C3. A body that omits \<^verbatim>\<open>name\<close>, or \<^verbatim>\<open>subscribedChannel\<close>, or both, is answered
  with status 400 and the fixed message, whatever the store would have done; the store
  after the request is the store before it, collection and list of calls alike, so no
  call was made on it.
\<close>

theorem post_missing_field_rejected:
  assumes "map_of kvs ''name'' = None \<or> map_of kvs ''subscribedChannel'' = None"
  shows "post_subscribers (JObj kvs) oid f db =
     (\<lparr>status = 400,
       body = JObj [(''message'', JStr ''Name and subscribedChannel are required.'')]\<rparr>, db)"
proof -
  from assms
  have "\<not> truthy (map_of kvs ''name'') \<or> \<not> truthy (map_of kvs ''subscribedChannel'')"
    by auto
  then show ?thesis
    by (simp add: post_subscribers_falsy message_response_def required_message_def)
qed

theorem post_missing_field_rejected_witness:
  "post_subscribers (JObj [(''name'', JStr ''John'')]) ''64b1f0c2a1b2c3d4e5f60719'' None
      sample_store =
     (\<lparr>status = 400,
       body = JObj [(''message'', JStr ''Name and subscribedChannel are required.'')]\<rparr>,
      sample_store)
   \<and> post_subscribers (JObj [(''subscribedChannel'', JStr ''Tech'')])
      ''64b1f0c2a1b2c3d4e5f60719'' None sample_store =
     (\<lparr>status = 400,
       body = JObj [(''message'', JStr ''Name and subscribedChannel are required.'')]\<rparr>,
      sample_store)
   \<and> post_subscribers (JObj []) ''64b1f0c2a1b2c3d4e5f60719'' None sample_store =
     (\<lparr>status = 400,
       body = JObj [(''message'', JStr ''Name and subscribedChannel are required.'')]\<rparr>,
      sample_store)"
  using post_missing_field_rejected [of "[(''name'', JStr ''John'')]"
      "''64b1f0c2a1b2c3d4e5f60719''" None sample_store]
    post_missing_field_rejected [of "[(''subscribedChannel'', JStr ''Tech'')]"
      "''64b1f0c2a1b2c3d4e5f60719''" None sample_store]
    post_missing_field_rejected [of "[]" "''64b1f0c2a1b2c3d4e5f60719''" None sample_store]
  by simp

text \<open>
  Claim C9. A body in which \<^verbatim>\<open>name\<close> or \<^verbatim>\<open>subscribedChannel\<close> is present with a falsy
  value (\<^verbatim>\<open>null\<close>, the empty string, a zero or \<^verbatim>\<open>false\<close>) gets the answer of a body
  that omits the field: status 400 with the fixed message and the store left as it was,
  no call made on it. The handler tests the value, not the presence of the key.
\<close>

theorem post_falsy_field_rejected:
  assumes "v \<in> {JNull, JStr [], JNum (Finite 0), JNum NegZero, JBool False}"
    and "map_of kvs ''name'' = Some v \<or> map_of kvs ''subscribedChannel'' = Some v"
  shows "post_subscribers (JObj kvs) oid f db =
     (\<lparr>status = 400,
       body = JObj [(''message'', JStr ''Name and subscribedChannel are required.'')]\<rparr>, db)"
proof -
  from assms(1) have "\<not> truthy (Some v)"
    by auto
  with assms(2)
  have "\<not> truthy (map_of kvs ''name'') \<or> \<not> truthy (map_of kvs ''subscribedChannel'')"
    by auto
  then show ?thesis
    by (simp add: post_subscribers_falsy message_response_def required_message_def)
qed

theorem post_falsy_field_rejected_witness:
  "post_subscribers (JObj [(''name'', JNum (Finite 0)), (''subscribedChannel'', JStr ''Tech'')])
      ''64b1f0c2a1b2c3d4e5f60719'' None sample_store =
     (\<lparr>status = 400,
       body = JObj [(''message'', JStr ''Name and subscribedChannel are required.'')]\<rparr>,
      sample_store)
   \<and> post_subscribers (JObj [(''name'', JStr ''John''), (''subscribedChannel'', JNull)])
      ''64b1f0c2a1b2c3d4e5f60719'' None sample_store =
     (\<lparr>status = 400,
       body = JObj [(''message'', JStr ''Name and subscribedChannel are required.'')]\<rparr>,
      sample_store)"
  using post_falsy_field_rejected [of "JNum (Finite 0)"
      "[(''name'', JNum (Finite 0)), (''subscribedChannel'', JStr ''Tech'')]"
      "''64b1f0c2a1b2c3d4e5f60719''" None sample_store]
    post_falsy_field_rejected [of JNull
      "[(''name'', JStr ''John''), (''subscribedChannel'', JNull)]"
      "''64b1f0c2a1b2c3d4e5f60719''" None sample_store]
  by simp

section \<open>GET /subscribers\<close>

text \<open>
  Claim C7. GET /subscribers makes one call on the store, \<^verbatim>\<open>find()\<close>, and nothing else.
  When the call goes through the answer is status 200 with the array of all documents
  of the collection, each with all its fields; when it is rejected with an error the
  answer is status 500 with the error's text as the message.
\<close>

theorem get_subscribers_outcomes:
  "get_subscribers None db =
     (\<lparr>status = 200, body = JArr (map JObj (subscribers db))\<rparr>,
      db\<lparr>calls := calls db @ [Find]\<rparr>)
   \<and> get_subscribers (Some msg) db =
     (\<lparr>status = 500, body = JObj [(''message'', JStr msg)]\<rparr>,
      db\<lparr>calls := calls db @ [Find]\<rparr>)"
  by (simp add: get_subscribers_def find_all_def logged_def json_response_def
      message_response_def)

theorem get_subscribers_outcomes_witness:
  "get_subscribers None sample_store =
     (\<lparr>status = 200, body = JArr [JObj john]\<rparr>, \<lparr>subscribers = [john], calls = [Find]\<rparr>)
   \<and> get_subscribers (Some ''connection timed out'') sample_store =
     (\<lparr>status = 500, body = JObj [(''message'', JStr ''connection timed out'')]\<rparr>,
      \<lparr>subscribers = [john], calls = [Find]\<rparr>)"
  using get_subscribers_outcomes [of sample_store "''connection timed out''"]
  by (simp add: sample_store_def)

text \<open>
  Claim C8. GET /subscribers leaves the collection as it was, so a second request that
  follows it, the store call having the same outcome, gets the same answer; more
  generally the answer depends on the collection alone, not on the calls made before.
\<close>

theorem get_subscribers_repeatable:
  "subscribers (snd (get_subscribers f db)) = subscribers db
   \<and> fst (get_subscribers f (snd (get_subscribers f db))) = fst (get_subscribers f db)
   \<and> (subscribers db2 = subscribers db
        \<longrightarrow> fst (get_subscribers f db2) = fst (get_subscribers f db))"
  by (simp add: get_subscribers_def find_all_def logged_def split: option.split)

theorem get_subscribers_repeatable_witness:
  "subscribers (snd (get_subscribers None sample_store)) = [john]
   \<and> fst (get_subscribers None (snd (get_subscribers None sample_store))) =
       \<lparr>status = 200, body = JArr [JObj john]\<rparr>
   \<and> fst (get_subscribers None sample_store) = \<lparr>status = 200, body = JArr [JObj john]\<rparr>
   \<and> fst (get_subscribers None \<lparr>subscribers = [john], calls = [Find, FindById ''x'']\<rparr>) =
       \<lparr>status = 200, body = JArr [JObj john]\<rparr>"
  using get_subscribers_repeatable [of None sample_store
      "\<lparr>subscribers = [john], calls = [Find, FindById ''x'']\<rparr>"]
  by (simp add: sample_store_def get_subscribers_def find_all_def json_response_def)

section \<open>The GET handlers only read\<close>

text \<open>
  Claim C10. Each of the three GET handlers leaves the collection as it was, whether its
  store call goes through or is rejected, and the one call it makes on the store is a
  read.
\<close>

theorem get_handlers_read_only:
  "subscribers (snd (get_subscribers f db)) = subscribers db
   \<and> subscribers (snd (get_subscribers_name f db)) = subscribers db
   \<and> subscribers (snd (get_subscriber_by_id ident f db)) = subscribers db
   \<and> (\<exists>c. is_read c \<and> calls (snd (get_subscribers f db)) = calls db @ [c])
   \<and> (\<exists>c. is_read c \<and> calls (snd (get_subscribers_name f db)) = calls db @ [c])
   \<and> (\<exists>c. is_read c \<and> calls (snd (get_subscriber_by_id ident f db)) = calls db @ [c])"
  by (simp add: get_subscribers_store get_subscribers_name_store get_subscriber_by_id_store
      logged_def)

theorem get_handlers_read_only_witness:
  "subscribers (snd (get_subscribers (Some ''down'') sample_store)) = [john]
   \<and> subscribers (snd (get_subscribers_name None sample_store)) = [john]
   \<and> subscribers (snd (get_subscriber_by_id ''name'' None sample_store)) = [john]"
  using get_handlers_read_only [of "Some ''down''" sample_store "''name''"]
    get_handlers_read_only [of None sample_store "''name''"]
  by (simp add: sample_store_def)

section \<open>GET /subscribers/name: the projection\<close>

lemma parse_select_names:
  "parse_select ''name subscribedChannel -_id'' =
     [Include ''name'', Include ''subscribedChannel'', Exclude ''_id'']"
  by (simp add: parse_select_def)

lemma project_names:
  "project [Include ''name'', Include ''subscribedChannel'', Exclude ''_id''] d =
     filter (\<lambda>(k, v). k = ''name'' \<or> k = ''subscribedChannel'') d"
  by (simp add: project_def)

lemma names_not_refused:
  "\<not> projection_refused [Include ''name'', Include ''subscribedChannel'', Exclude ''_id'']"
  by (simp add: projection_refused_def)

lemma get_subscribers_name_ok:
  "get_subscribers_name None db =
     (\<lparr>status = 200,
       body = JArr (map (\<lambda>d. JObj (filter (\<lambda>(k, v). k = ''name'' \<or> k = ''subscribedChannel'') d))
                     (subscribers db))\<rparr>,
      logged (FindSelect ''name subscribedChannel -_id'') db)"
  by (simp add: get_subscribers_name_def find_select_def parse_select_names project_names
      names_not_refused json_response_def comp_def)

text \<open>
  Claim C4. Whatever the collection holds, the answer of GET /subscribers/name to a
  store call that goes through is the array of the documents, each cut down to its
  fields \<^verbatim>\<open>name\<close> and \<^verbatim>\<open>subscribedChannel\<close>: no object of the array has another field, and
  none has \<^verbatim>\<open>_id\<close>. A rejected call is answered with status 500 and a message, no array.
\<close>

theorem names_projection_fields:
  "fst (get_subscribers_name None db) =
     \<lparr>status = 200,
      body = JArr (map (\<lambda>d. JObj (filter (\<lambda>(k, v). k = ''name'' \<or> k = ''subscribedChannel'') d))
                    (subscribers db))\<rparr>
   \<and> (\<forall>d \<in> set (subscribers db).
        fst ` set (filter (\<lambda>(k, v). k = ''name'' \<or> k = ''subscribedChannel'') d)
          \<subseteq> {''name'', ''subscribedChannel''}
        \<and> map_of (filter (\<lambda>(k, v). k = ''name'' \<or> k = ''subscribedChannel'') d) ''_id'' = None)
   \<and> fst (get_subscribers_name (Some msg) db) =
       \<lparr>status = 500, body = JObj [(''message'', JStr msg)]\<rparr>"
proof -
  have "map_of (filter (\<lambda>(k, v). k = ''name'' \<or> k = ''subscribedChannel'') d) ''_id'' = None"
    for d :: document
    by (induction d) auto
  moreover have "fst (get_subscribers_name (Some msg) db) =
       \<lparr>status = 500, body = JObj [(''message'', JStr msg)]\<rparr>"
    by (simp add: get_subscribers_name_def find_select_def message_response_def)
  ultimately show ?thesis
    by (auto simp add: get_subscribers_name_ok)
qed

theorem names_projection_fields_witness:
  "fst (get_subscribers_name None \<lparr>subscribers = [john, asha], calls = []\<rparr>) =
     \<lparr>status = 200,
      body = JArr [JObj [(''name'', JStr ''John''), (''subscribedChannel'', JStr ''Tech'')],
                   JObj [(''name'', JStr ''Asha''), (''subscribedChannel'', JStr ''Music'')]]\<rparr>"
  using names_projection_fields [of "\<lparr>subscribers = [john, asha], calls = []\<rparr>" "''down''"]
  by (simp add: john_def asha_def)

section \<open>GET /subscribers/:id\<close>

lemma castObjectId_generated: "generated_id s \<Longrightarrow> castObjectId s = Inr s"
  by (simp add: castObjectId_def generated_id_def)

lemma find_fresh:
  "\<forall>x \<in> set xs. \<not> P x \<Longrightarrow> P d \<Longrightarrow> find P (xs @ [d]) = Some d"
  by (induction xs) auto

lemma find_absent: "\<forall>x \<in> set xs. \<not> P x \<Longrightarrow> find P xs = None"
  by (induction xs) auto

lemma get_by_id_after_insert:
  assumes "generated_id oid"
    and "Some (JStr oid) \<notin> doc_id ` set coll"
    and "doc_id d = Some (JStr oid)"
    and "subscribers db2 = coll @ [d]"
  shows "fst (get_subscriber_by_id oid None db2) = \<lparr>status = 200, body = JObj d\<rparr>"
proof -
  have "\<forall>x \<in> set coll. doc_id x \<noteq> Some (JStr oid)"
    using assms(2) by force
  then have "find (\<lambda>x. doc_id x = Some (JStr oid)) (coll @ [d]) = Some d"
    using assms(3) by (intro find_fresh) simp_all
  then show ?thesis
    using assms(1,4)
    by (simp add: get_subscriber_by_id_def findById_def castObjectId_generated json_response_def)
qed

text \<open>
  Claim C2. GET /subscribers/:id answers with status 400 and the message
  \<^verbatim>\<open>Subscriber not found\<close> in each of three cases: the identifier is not well-formed (the
  cast fails), the store call is rejected, or no document of the collection has the
  identifier. The answer is the same response in all three, so it does not tell them
  apart.
\<close>

theorem get_by_id_failures_collapse:
  assumes "\<not> isValidObjectId ident \<or> f \<noteq> None
     \<or> (\<forall>d \<in> set (subscribers db). doc_id d \<noteq> Some (JStr (map to_lower ident)))"
  shows "fst (get_subscriber_by_id ident f db) =
     \<lparr>status = 400, body = JObj [(''message'', JStr ''Subscriber not found'')]\<rparr>"
proof (cases "isValidObjectId ident \<and> f = None")
  case False
  then show ?thesis
    by (auto simp add: get_subscriber_by_id_def findById_def castObjectId_def not_found_def
        message_response_def)
next
  case True
  with assms have "\<forall>d \<in> set (subscribers db). doc_id d \<noteq> Some (JStr (map to_lower ident))"
    by auto
  then have "find (\<lambda>d. doc_id d = Some (JStr (map to_lower ident))) (subscribers db) = None"
    by (intro find_absent) auto
  with True show ?thesis
    by (simp add: get_subscriber_by_id_def findById_def castObjectId_def not_found_def
        message_response_def)
qed

theorem get_by_id_failures_collapse_witness:
  "fst (get_subscriber_by_id ''name'' None sample_store) =
     \<lparr>status = 400, body = JObj [(''message'', JStr ''Subscriber not found'')]\<rparr>
   \<and> fst (get_subscriber_by_id ''64b1f0c2a1b2c3d4e5f60718'' (Some ''connection timed out'')
        sample_store) =
     \<lparr>status = 400, body = JObj [(''message'', JStr ''Subscriber not found'')]\<rparr>
   \<and> fst (get_subscriber_by_id ''64b1f0c2a1b2c3d4e5f60719'' None sample_store) =
     \<lparr>status = 400, body = JObj [(''message'', JStr ''Subscriber not found'')]\<rparr>"
  using get_by_id_failures_collapse [of "''name''" None sample_store]
    get_by_id_failures_collapse [of "''64b1f0c2a1b2c3d4e5f60718''" "Some ''connection timed out''"
      sample_store]
    get_by_id_failures_collapse [of "''64b1f0c2a1b2c3d4e5f60719''" None sample_store]
  by (simp add: isValidObjectId_def sample_store_def john_def doc_id_def to_lower_def)

section \<open>POST /subscribers, then GET /subscribers/:id\<close>

text \<open>
  Claim C1. Let the body carry a non-empty text for \<^verbatim>\<open>name\<close> and for
  \<^verbatim>\<open>subscribedChannel\<close>, let the store calls go through, and let the identifier drawn for
  the new document be one the collection does not hold yet. Then POST /subscribers
  answers 201 with the created document, identifier included, and appends it to the
  collection with one \<^verbatim>\<open>save\<close>; and GET /subscribers/:id with that identifier, on the
  store the POST left or on any store with the same collection, answers 200 with a
  document whose \<^verbatim>\<open>name\<close> and \<^verbatim>\<open>subscribedChannel\<close> are the posted values.
\<close>

theorem post_then_get_roundtrip:
  assumes "name \<noteq> []" and "channel \<noteq> []"
    and "map_of kvs ''name'' = Some (JStr name)"
    and "map_of kvs ''subscribedChannel'' = Some (JStr channel)"
    and "generated_id oid"
    and "Some (JStr oid) \<notin> doc_id ` set (subscribers db)"
  shows "post_subscribers (JObj kvs) oid None db =
       (\<lparr>status = 201,
         body = JObj [(''_id'', JStr oid), (''name'', JStr name),
                      (''subscribedChannel'', JStr channel)]\<rparr>,
        \<lparr>subscribers = subscribers db @
           [[(''_id'', JStr oid), (''name'', JStr name), (''subscribedChannel'', JStr channel)]],
         calls = calls db @
           [Save [(''_id'', JStr oid), (''name'', JStr name),
                  (''subscribedChannel'', JStr channel)]]\<rparr>)
     \<and> fst (get_subscriber_by_id oid None (snd (post_subscribers (JObj kvs) oid None db))) =
       \<lparr>status = 200,
        body = JObj [(''_id'', JStr oid), (''name'', JStr name),
                     (''subscribedChannel'', JStr channel)]\<rparr>
     \<and> (\<forall>db2. subscribers db2 = subscribers (snd (post_subscribers (JObj kvs) oid None db))
          \<longrightarrow> fst (get_subscriber_by_id oid None db2) =
       \<lparr>status = 200,
        body = JObj [(''_id'', JStr oid), (''name'', JStr name),
                     (''subscribedChannel'', JStr channel)]\<rparr>)"
proof -
  let ?d = "[(''_id'', JStr oid), (''name'', JStr name), (''subscribedChannel'', JStr channel)]"
  have new: "new_Subscriber oid (Some (JStr name)) (Some (JStr channel)) = ?d"
    by (simp add: new_Subscriber_def set_field_def)
  have ident: "doc_id ?d = Some (JStr oid)"
    by (simp add: doc_id_def)
  have post: "post_subscribers (JObj kvs) oid None db =
      (\<lparr>status = 201, body = JObj ?d\<rparr>,
       \<lparr>subscribers = subscribers db @ [?d], calls = calls db @ [Save ?d]\<rparr>)"
    using assms(1-4,6) by (simp add: post_subscribers_def new save_def ident logged_def)
  have "fst (get_subscriber_by_id oid None db2) = \<lparr>status = 200, body = JObj ?d\<rparr>"
    if "subscribers db2 = subscribers db @ [?d]" for db2
    using assms(5,6) ident that by (rule get_by_id_after_insert)
  with post show ?thesis by simp
qed

theorem post_then_get_roundtrip_witness:
  "post_subscribers (JObj [(''name'', JStr ''Asha''), (''subscribedChannel'', JStr ''Music'')])
      ''64b1f0c2a1b2c3d4e5f60719'' None sample_store =
     (\<lparr>status = 201, body = JObj asha\<rparr>,
      \<lparr>subscribers = [john, asha], calls = [Save asha]\<rparr>)
   \<and> fst (get_subscriber_by_id ''64b1f0c2a1b2c3d4e5f60719'' None
        \<lparr>subscribers = [john, asha], calls = [Save asha]\<rparr>) =
     \<lparr>status = 200, body = JObj asha\<rparr>
   \<and> fst (get_subscriber_by_id ''64b1f0c2a1b2c3d4e5f60719'' None
        \<lparr>subscribers = [john, asha], calls = [Save asha, Find]\<rparr>) =
     \<lparr>status = 200, body = JObj asha\<rparr>"
proof -
  have fresh: "Some (JStr ''64b1f0c2a1b2c3d4e5f60719'') \<notin> doc_id ` set (subscribers sample_store)"
    by (simp add: sample_store_def john_def doc_id_def)
  have gen: "generated_id ''64b1f0c2a1b2c3d4e5f60719''"
    by (simp add: generated_id_def isValidObjectId_def hex_digits_def to_lower_def)
  from post_then_get_roundtrip [of "''Asha''" "''Music''"
      "[(''name'', JStr ''Asha''), (''subscribedChannel'', JStr ''Music'')]"
      "''64b1f0c2a1b2c3d4e5f60719''" sample_store, OF _ _ _ _ gen fresh]
  show ?thesis
    by (simp add: sample_store_def asha_def)
qed

section \<open>Routing of /subscribers/name\<close>

lemma segments_names: "segments ''/subscribers/name'' = [[], ''subscribers'', ''name'']"
  by (simp add: segments_def strip_slash_def)

lemma segments_root: "segments ''/'' = [[]]"
  by (simp add: segments_def strip_slash_def)

lemma segments_subscribers: "segments ''/subscribers'' = [[], ''subscribers'']"
  by (simp add: segments_def strip_slash_def)

lemma segments_id: "segments ''/subscribers/:id'' = [[], ''subscribers'', '':id'']"
  by (simp add: segments_def strip_slash_def)

lemma segments_api_docs: "segments ''/api-docs'' = [[], ''api-docs'']"
  by (simp add: segments_def strip_slash_def)

lemma match_literal_names:
  "match_route ''/subscribers/name'' ''/subscribers/name'' = Some []"
  by (simp add: match_route_def segments_names)

lemma match_param_names:
  "match_route ''/subscribers/:id'' ''/subscribers/name'' = Some [(''id'', ''name'')]"
  by (simp add: match_route_def segments_names segments_id)

lemma no_match_root: "match_route ''/'' ''/subscribers/name'' = None"
  by (simp add: match_route_def segments_names segments_root)

lemma no_match_subscribers: "match_route ''/subscribers'' ''/subscribers/name'' = None"
  by (simp add: match_route_def segments_names segments_subscribers)

lemma no_match_api_docs: "\<not> match_prefix ''/api-docs'' ''/subscribers/name''"
  by (simp add: match_prefix_def segments_names segments_api_docs)

lemma no_dot_segment_names: "\<not> has_dot_segment ''/subscribers/name''"
  by (simp add: has_dot_segment_def)

lemma static_names:
  "express_static tree m ''/subscribers/name'' =
     (if m \<noteq> GET then Pass
      else (case node_at tree ''/subscribers/name'' of
              Some File \<Rightarrow> Serve ''/subscribers/name''
            | Some Directory \<Rightarrow> MovedTo ''/subscribers/name/''
            | None \<Rightarrow> Pass))"
  by (simp add: express_static_def no_dot_segment_names split: option.split node.split)

lemma routes_names:
  "req_path req = ''/subscribers/name'' \<Longrightarrow>
   dispatch tree
     [Route GET ''/'' Homepage,
      Route GET ''/subscribers'' ListAll,
      Route POST ''/subscribers'' Create,
      Route GET ''/subscribers/name'' ListNames,
      Route GET ''/subscribers/:id'' GetById,
      Use ''/api-docs'' ApiDocs] req b =
     (if req_method req = GET then Some (Handled ListNames [] b) else None)"
  by (simp add: no_match_root no_match_subscribers match_literal_names no_match_api_docs)

lemma dispatch_names:
  "req_path req = ''/subscribers/name'' \<Longrightarrow>
   dispatch tree app_stack req b =
     (case express_json (req_payload req) of
        None \<Rightarrow> Some ParserError
      | Some v \<Rightarrow>
          (case express_static tree (req_method req) ''/subscribers/name'' of
             Serve file \<Rightarrow> Some (ServedFile file)
           | MovedTo location \<Rightarrow> Some (Redirected location)
           | Pass \<Rightarrow> (if req_method req = GET then Some (Handled ListNames [] (Some v)) else None)))"
  unfolding app_stack_def
  by (simp add: routes_names del: dispatch.simps(4,5) split: option.split static_outcome.split)


text \<open>
  Claim C5, as amended. No request to the path \<^verbatim>\<open>/subscribers/name\<close>, whatever its method,
  its body and the served directory, reaches the handler of \<^verbatim>\<open>/subscribers/:id\<close>. A GET
  of that path whose body \<^verbatim>\<open>express.json()\<close> does not refuse, with no file and no
  directory of that path in the served directory, is dispatched to the handler of the
  names projection, and the application does exactly what that handler does. The only
  call a request to the path can add on the store is the projected \<^verbatim>\<open>find\<close>, so \<^verbatim>\<open>name\<close>
  is never looked up as an identifier. The precedence among the routes comes from the
  order of registration: the pattern \<^verbatim>\<open>/subscribers/:id\<close> does match the path, binding
  \<^verbatim>\<open>id\<close> to \<^verbatim>\<open>name\<close>, and with the two routes in the other order it would take the
  request.
\<close>

theorem literal_route_precedence:
  "(\<forall>params b. dispatch tree app_stack
        \<lparr>req_method = m, req_path = ''/subscribers/name'', req_payload = pl\<rparr> None
      \<noteq> Some (Handled GetById params b))
   \<and> (express_json pl = Some v \<and> node_at tree ''/subscribers/name'' = None \<longrightarrow>
        dispatch tree app_stack
          \<lparr>req_method = GET, req_path = ''/subscribers/name'', req_payload = pl\<rparr> None =
          Some (Handled ListNames [] (Some v))
        \<and> app tree oid f
            \<lparr>req_method = GET, req_path = ''/subscribers/name'', req_payload = pl\<rparr> db =
            (Responded (fst (get_subscribers_name f db)), snd (get_subscribers_name f db)))
   \<and> (calls (snd (app tree oid f
          \<lparr>req_method = m, req_path = ''/subscribers/name'', req_payload = pl\<rparr> db)) = calls db
      \<or> calls (snd (app tree oid f
          \<lparr>req_method = m, req_path = ''/subscribers/name'', req_payload = pl\<rparr> db)) =
        calls db @ [FindSelect ''name subscribedChannel -_id''])
   \<and> match_route ''/subscribers/:id'' ''/subscribers/name'' = Some [(''id'', ''name'')]
   \<and> dispatch tree
        [Route GET ''/subscribers/:id'' GetById, Route GET ''/subscribers/name'' ListNames]
        \<lparr>req_method = GET, req_path = ''/subscribers/name'', req_payload = pl\<rparr> b =
        Some (Handled GetById [(''id'', ''name'')] b)"
proof -
  let ?req = "\<lambda>m. \<lparr>req_method = m, req_path = ''/subscribers/name'', req_payload = pl\<rparr>"
  have never: "dispatch tree app_stack (?req m) None \<noteq> Some (Handled GetById params b)"
    for params b
    by (simp add: dispatch_names static_names split: option.split node.split)
  have reached: "dispatch tree app_stack (?req GET) None = Some (Handled ListNames [] (Some v))"
    if "express_json pl = Some v" and "node_at tree ''/subscribers/name'' = None"
    using that by (simp add: dispatch_names static_names)
  have handled: "app tree oid f (?req GET) db =
      (Responded (fst (get_subscribers_name f db)), snd (get_subscribers_name f db))"
    if "express_json pl = Some v" and "node_at tree ''/subscribers/name'' = None"
    using reached [OF that] by (simp add: app_def run_handler_def split: prod.split)
  have trace: "calls (snd (app tree oid f (?req m) db)) = calls db
      \<or> calls (snd (app tree oid f (?req m) db)) =
        calls db @ [FindSelect ''name subscribedChannel -_id'']"
    using get_subscribers_name_store [of f db]
    by (auto simp add: app_def run_handler_def dispatch_names static_names logged_def
        split: prod.split option.split node.split)
  from never reached handled trace show ?thesis
    by (simp add: match_param_names)
qed

theorem literal_route_precedence_witness:
  "dispatch [(''/index.html'', File), (''/app.js'', File), (''/models/subscribers.js'', File)]
      app_stack \<lparr>req_method = GET, req_path = ''/subscribers/name'', req_payload = NoJsonBody\<rparr>
      None =
     Some (Handled ListNames [] (Some (JObj [])))
   \<and> app [(''/index.html'', File), (''/app.js'', File), (''/models/subscribers.js'', File)]
        ''64b1f0c2a1b2c3d4e5f60719'' None
        \<lparr>req_method = GET, req_path = ''/subscribers/name'', req_payload = NoJsonBody\<rparr>
        sample_store =
     (Responded
        \<lparr>status = 200,
         body = JArr [JObj [(''name'', JStr ''John''), (''subscribedChannel'', JStr ''Tech'')]]\<rparr>,
      \<lparr>subscribers = [john], calls = [FindSelect ''name subscribedChannel -_id'']\<rparr>)"
  using literal_route_precedence [of
      "[(''/index.html'', File), (''/app.js'', File), (''/models/subscribers.js'', File)]"
      GET NoJsonBody "JObj []" "''64b1f0c2a1b2c3d4e5f60719''" None sample_store]
  by (simp add: node_at_def beneath_def get_subscribers_name_ok logged_def sample_store_def
      john_def)

text \<open>
  Claim C5 as first stated, that every request to the path is dispatched to the handler
  of the names projection, fails: the two layers registered before the routes answer a
  GET with a malformed JSON body (status 400), a GET when the served directory has a
  file of that path (the file) or a directory of that path (a redirection), and no
  route is registered for a POST of the path. None of the four requests makes a call on
  the store.
\<close>

theorem literal_route_precedence_counterexample:
  "app [(''/index.html'', File)] ''64b1f0c2a1b2c3d4e5f60719'' None
      \<lparr>req_method = GET, req_path = ''/subscribers/name'', req_payload = Malformed\<rparr>
      sample_store = (BadRequest, sample_store)
   \<and> app [(''/index.html'', File), (''/subscribers/name'', File)]
      ''64b1f0c2a1b2c3d4e5f60719'' None
      \<lparr>req_method = GET, req_path = ''/subscribers/name'', req_payload = NoJsonBody\<rparr>
      sample_store = (SentFile ''/subscribers/name'', sample_store)
   \<and> app [(''/index.html'', File), (''/subscribers/name/index.html'', File)]
      ''64b1f0c2a1b2c3d4e5f60719'' None
      \<lparr>req_method = GET, req_path = ''/subscribers/name'', req_payload = NoJsonBody\<rparr>
      sample_store = (MovedPermanently ''/subscribers/name/'', sample_store)
   \<and> app [(''/index.html'', File)] ''64b1f0c2a1b2c3d4e5f60719'' None
      \<lparr>req_method = POST, req_path = ''/subscribers/name'', req_payload = NoJsonBody\<rparr>
      sample_store = (NoRoute, sample_store)"
  by (simp add: app_def dispatch_names static_names node_at_def beneath_def)

section \<open>The seeding script\<close>

lemma insert_ordered_prefix:
  "\<exists>j\<le>length ds. snd (insert_ordered ds coll) = coll @ take j ds"
proof (induction ds arbitrary: coll)
  case Nil
  then show ?case by simp
next
  case (Cons d ds)
  show ?case
  proof (cases "doc_id d \<in> set (map doc_id coll)")
    case True
    then have "snd (insert_ordered (d # ds) coll) = coll @ take 0 (d # ds)" by simp
    then show ?thesis by blast
  next
    case False
    from Cons.IH [of "coll @ [d]"] obtain j where
      j: "j \<le> length ds" "snd (insert_ordered ds (coll @ [d])) = (coll @ [d]) @ take j ds"
      by blast
    with False have "snd (insert_ordered (d # ds) coll) = coll @ take (Suc j) (d # ds)"
      by simp
    moreover from j have "Suc j \<le> length (d # ds)" by simp
    ultimately show ?thesis by blast
  qed
qed

lemma insert_ordered_distinct:
  "distinct (map doc_id ds) \<Longrightarrow> set (map doc_id ds) \<inter> set (map doc_id coll) = {}
     \<Longrightarrow> insert_ordered ds coll = (None, coll @ ds)"
proof (induction ds arbitrary: coll)
  case Nil
  then show ?case by simp
next
  case (Cons d ds)
  from Cons.prems have fresh: "doc_id d \<notin> set (map doc_id coll)" by auto
  from Cons.prems have "distinct (map doc_id ds)"
    and "set (map doc_id ds) \<inter> set (map doc_id (coll @ [d])) = {}" by auto
  then have "insert_ordered ds (coll @ [d]) = (None, (coll @ [d]) @ ds)"
    by (rule Cons.IH)
  with fresh show ?case by simp
qed

lemma doc_id_new_Subscriber: "doc_id (new_Subscriber oid a b) = Some (JStr oid)"
  by (simp add: doc_id_def new_Subscriber_def)

lemma seed_ids:
  "map doc_id (seed_documents gen data) = map (\<lambda>i. Some (JStr (gen i))) [0..<length data]"
proof -
  have "map doc_id (seed_documents gen data) =
      map ((\<lambda>i. Some (JStr (gen i))) \<circ> fst) (enumerate 0 data)"
    by (simp add: seed_documents_def doc_id_new_Subscriber case_prod_unfold comp_def)
  also have "\<dots> = map (\<lambda>i. Some (JStr (gen i))) (map fst (enumerate 0 data))"
    by (rule map_map [symmetric])
  finally show ?thesis
    by (simp only: map_fst_enumerate add_0)
qed

lemma seed_ids_distinct:
  assumes "inj_on gen {..<length data}"
  shows "distinct (map doc_id (seed_documents gen data))"
proof -
  have "inj_on (\<lambda>i. Some (JStr (gen i))) (set [0..<length data])"
    using assms by (auto simp add: inj_on_def)
  then show ?thesis
    by (simp add: seed_ids distinct_map)
qed

lemma seed_insert_all:
  assumes "inj_on gen {..<length data}"
  shows "insert_ordered (seed_documents gen data) [] = (None, seed_documents gen data)"
  using insert_ordered_distinct [OF seed_ids_distinct [OF assms], of "[]"] by simp

lemma seed_insert_some:
  assumes "inj_on gen {..<length data}"
  shows "insert_ordered (take k (seed_documents gen data)) [] =
     (None, take k (seed_documents gen data))"
proof -
  have "distinct (take k (map doc_id (seed_documents gen data)))"
    using seed_ids_distinct [OF assms] by (rule distinct_take)
  then have "distinct (map doc_id (take k (seed_documents gen data)))"
    by (simp add: take_map)
  from insert_ordered_distinct [OF this, of "[]"] show ?thesis by simp
qed

text \<open>
  Claim C6. The script deletes every document, then inserts the seed documents, then
  disconnects, in this order and each once. When the delete goes through and the insert
  breaks after \<open>k\<close> documents, the script ends in an unhandled rejection right there:
  the collection holds a prefix of the seed documents, of at most \<open>k\<close> of them, and
  nothing of what it held before; no call follows the insert (no retry, no rollback, no
  disconnect). With identifiers that differ from one seed document to the next, a run
  whose calls all go through completes with exactly the seed documents, and a broken
  insert leaves exactly the first \<open>k\<close> of them and rejects with the store's error.
\<close>

theorem seeding_script_sequence:
  "(\<exists>j e. j \<le> k \<and> createDatabase data gen None (Some (k, msg)) f3 db =
       (UnhandledRejection e,
        \<lparr>subscribers = take j (seed_documents gen data),
         calls = calls db @ [DeleteMany, InsertMany (seed_documents gen data)]\<rparr>))
   \<and> (inj_on gen {..<length data} \<longrightarrow>
        createDatabase data gen None None None db =
          (Completed,
           \<lparr>subscribers = seed_documents gen data,
            calls = calls db @ [DeleteMany, InsertMany (seed_documents gen data), Disconnect]\<rparr>)
        \<and> createDatabase data gen None (Some (k, msg)) f3 db =
          (UnhandledRejection (StoreError msg),
           \<lparr>subscribers = take k (seed_documents gen data),
            calls = calls db @ [DeleteMany, InsertMany (seed_documents gen data)]\<rparr>))"
proof -
  let ?ds = "seed_documents gen data"
  obtain j where j: "j \<le> length (take k ?ds)"
    "snd (insert_ordered (take k ?ds) []) = [] @ take j (take k ?ds)"
    using insert_ordered_prefix [of "take k ?ds" "[]"] by blast
  then have jk: "min j k \<le> k"
    and coll: "snd (insert_ordered (take k ?ds) []) = take (min j k) ?ds"
    by simp_all
  have general: "\<exists>j e. j \<le> k \<and> createDatabase data gen None (Some (k, msg)) f3 db =
       (UnhandledRejection e,
        \<lparr>subscribers = take j ?ds, calls = calls db @ [DeleteMany, InsertMany ?ds]\<rparr>)"
  proof (cases "insert_ordered (take k ?ds) []")
    case (Pair r c)
    with coll have c: "c = take (min j k) ?ds" by simp
    show ?thesis
    proof (cases r)
      case None
      with Pair c have "createDatabase data gen None (Some (k, msg)) f3 db =
         (UnhandledRejection (StoreError msg),
          \<lparr>subscribers = take (min j k) ?ds, calls = calls db @ [DeleteMany, InsertMany ?ds]\<rparr>)"
        by (simp add: createDatabase_def refreshAll_def deleteMany_def insertMany_def logged_def)
      with jk show ?thesis by blast
    next
      case (Some err)
      with Pair c have "createDatabase data gen None (Some (k, msg)) f3 db =
         (UnhandledRejection err,
          \<lparr>subscribers = take (min j k) ?ds, calls = calls db @ [DeleteMany, InsertMany ?ds]\<rparr>)"
        by (simp add: createDatabase_def refreshAll_def deleteMany_def insertMany_def logged_def)
      with jk show ?thesis by blast
    qed
  qed
  have unique: "createDatabase data gen None None None db =
          (Completed,
           \<lparr>subscribers = ?ds, calls = calls db @ [DeleteMany, InsertMany ?ds, Disconnect]\<rparr>)
        \<and> createDatabase data gen None (Some (k, msg)) f3 db =
          (UnhandledRejection (StoreError msg),
           \<lparr>subscribers = take k ?ds, calls = calls db @ [DeleteMany, InsertMany ?ds]\<rparr>)"
    if "inj_on gen {..<length data}"
    using seed_insert_all [OF that] seed_insert_some [OF that, of k]
    by (simp add: createDatabase_def refreshAll_def deleteMany_def insertMany_def
        disconnect_def logged_def)
  from general unique show ?thesis by blast
qed

lemma seed_documents_sample:
  "seed_documents seed_gen seed_data =
     [[(''_id'', JStr ''650000000000000000000000''), (''name'', JStr ''a''),
       (''subscribedChannel'', JStr ''c1'')],
      [(''_id'', JStr ''650000000000000000000001''), (''name'', JStr ''b''),
       (''subscribedChannel'', JStr ''c2'')]]"
  by (simp add: seed_documents_def seed_data_def seed_gen_def new_Subscriber_def set_field_def)

lemma seed_gen_inj: "inj_on seed_gen {..<length seed_data}"
  by (auto simp add: inj_on_def seed_data_def seed_gen_def less_Suc_eq)

theorem seeding_script_sequence_witness:
  "createDatabase seed_data seed_gen None None None sample_store =
     (Completed,
      \<lparr>subscribers =
         [[(''_id'', JStr ''650000000000000000000000''), (''name'', JStr ''a''),
           (''subscribedChannel'', JStr ''c1'')],
          [(''_id'', JStr ''650000000000000000000001''), (''name'', JStr ''b''),
           (''subscribedChannel'', JStr ''c2'')]],
       calls =
         [DeleteMany,
          InsertMany
            [[(''_id'', JStr ''650000000000000000000000''), (''name'', JStr ''a''),
              (''subscribedChannel'', JStr ''c1'')],
             [(''_id'', JStr ''650000000000000000000001''), (''name'', JStr ''b''),
              (''subscribedChannel'', JStr ''c2'')]],
          Disconnect]\<rparr>)
   \<and> createDatabase seed_data seed_gen None (Some (1, ''connection lost'')) None sample_store =
     (UnhandledRejection (StoreError ''connection lost''),
      \<lparr>subscribers =
         [[(''_id'', JStr ''650000000000000000000000''), (''name'', JStr ''a''),
           (''subscribedChannel'', JStr ''c1'')]],
       calls =
         [DeleteMany,
          InsertMany
            [[(''_id'', JStr ''650000000000000000000000''), (''name'', JStr ''a''),
              (''subscribedChannel'', JStr ''c1'')],
             [(''_id'', JStr ''650000000000000000000001''), (''name'', JStr ''b''),
              (''subscribedChannel'', JStr ''c2'')]]]\<rparr>)"
  using seeding_script_sequence [of 1 seed_data seed_gen "''connection lost''" None sample_store]
    seed_gen_inj
  by (simp add: seed_documents_sample sample_store_def)

end
